theory Spec2Isabelle
  imports Complex_Main "HOL-Library.Word" "HOL-Library.Sublist"
begin

section \<open>The PDF tool of MDXPDF-MCP (src/index.ts)\<close>

text \<open>
  The source file carries two revisions of the same declarations one after the other: an
  earlier one without diagram support (lines 1 to 190) and the current one (lines 191 to
  431). The later declarations of \<^verbatim>\<open>isCreatePDFArgs\<close>, \<^verbatim>\<open>performCreatePDF\<close> and of
  the request handler are the ones embedded here; line numbers refer to them.
\<close>

subsection \<open>JavaScript strings\<close>

text \<open>
  A JavaScript string is a sequence of 16-bit code units. Literals of the source are
  written as Isabelle strings and mapped to code units by \<open>js\<close>; the source file is
  plain ASCII, so each character is one code unit.
\<close>

type_synonym jschar = "16 word"
type_synonym jsstring = "jschar list"

definition js :: "string \<Rightarrow> jsstring" where
  "js s = map of_char s"

definition backslash :: jschar where
  "backslash = 0x5C"

definition apostrophe :: jschar where
  "apostrophe = 0x27"

definition newline :: jschar where
  "newline = 0x0A"

text \<open>
  \<^verbatim>\<open>String.prototype.trim\<close> strips the code units of the ECMAScript productions
  WhiteSpace and LineTerminator from both ends.
\<close>

definition isWhiteSpace :: "jschar \<Rightarrow> bool" where
  "isWhiteSpace c \<longleftrightarrow>
     c \<in> {0x0009, 0x000A, 0x000B, 0x000C, 0x000D, 0x0020, 0x00A0, 0x1680,
          0x2000, 0x2001, 0x2002, 0x2003, 0x2004, 0x2005, 0x2006, 0x2007,
          0x2008, 0x2009, 0x200A, 0x2028, 0x2029, 0x202F, 0x205F, 0x3000, 0xFEFF}"

definition trim :: "jsstring \<Rightarrow> jsstring" where
  "trim s = rev (dropWhile isWhiteSpace (rev (dropWhile isWhiteSpace s)))"

subsection \<open>The Mermaid preprocessor (lines 277 to 283)\<close>

text \<open>
  \<^verbatim>\<open>markdown_source.replace(/```mermaid\n([\s\S]*?)\n```/g, (_, code) => ...)\<close>.
  The pattern is the literal opening \<open>fence_open\<close>, a lazy run of arbitrary code units
  (the capture group) and the literal closing \<open>fence_close\<close>.
\<close>

definition fence_open :: jsstring where
  \<open>fence_open = js ''```mermaid\<newline>''\<close>

definition fence_close :: jsstring where
  \<open>fence_close = js ''\<newline>```''\<close>

text \<open>
  The lazy group followed by the closing literal: the matcher tries the capture of
  length 0, 1, 2, ... and stops at the first one after which \<open>fence_close\<close> follows.
  The result is the capture and the input left after the match; \<open>None\<close> when the
  closing literal never follows.
\<close>

fun lazy_capture :: "jsstring \<Rightarrow> (jsstring \<times> jsstring) option" where
  "lazy_capture s =
     (if prefix fence_close s then Some ([], drop (length fence_close) s)
      else (case s of
              [] \<Rightarrow> None
            | c # cs \<Rightarrow> (case lazy_capture cs of
                          None \<Rightarrow> None
                        | Some (code, rest) \<Rightarrow> Some (c # code, rest))))"

declare lazy_capture.simps [simp del]

text \<open>One attempt of the whole pattern at the start of \<open>s\<close>.\<close>

definition exec_at :: "jsstring \<Rightarrow> (jsstring \<times> jsstring) option" where
  "exec_at s =
     (if prefix fence_open s then lazy_capture (drop (length fence_open) s) else None)"

text \<open>
  The replacer callback. Its result is inserted as it is: a function replacer is not
  subject to the dollar patterns of a replacement string.
\<close>

definition replacer :: "jsstring \<Rightarrow> jsstring" where
  \<open>replacer code =
     (let cleanCode = trim code
      in js ''<div class="mermaid">\<newline>'' @ cleanCode @ js ''\<newline></div>'')\<close>

lemma lazy_capture_split:
  "lazy_capture s = Some (code, rest) \<Longrightarrow> s = code @ fence_close @ rest"
proof (induction s arbitrary: code)
  case Nil
  then show ?case
    by (auto simp: lazy_capture.simps [of "[]"] fence_close_def js_def split: if_splits)
next
  case (Cons c cs)
  show ?case
  proof (cases "prefix fence_close (c # cs)")
    case True
    with Cons.prems have "code = []" and "rest = drop (length fence_close) (c # cs)"
      by (auto simp: lazy_capture.simps [of "c # cs"])
    with True show ?thesis
      by (metis append_Nil prefix_def append_eq_conv_conj)
  next
    case False
    with Cons.prems obtain code' where "lazy_capture cs = Some (code', rest)" and "code = c # code'"
      by (auto simp: lazy_capture.simps [of "c # cs"] split: option.splits)
    with Cons.IH show ?thesis by simp
  qed
qed

lemma exec_at_split:
  "exec_at s = Some (code, rest) \<Longrightarrow> s = fence_open @ code @ fence_close @ rest"
  unfolding exec_at_def
  by (auto split: if_splits dest!: lazy_capture_split simp: prefix_def)

lemma exec_at_shorter: "exec_at s = Some (code, rest) \<Longrightarrow> length rest < length s"
  by (drule exec_at_split) (simp add: fence_open_def js_def)

text \<open>
  The global replace: the pattern is tried at each position from left to right; after a
  match the scan resumes behind it, otherwise the code unit is copied and the scan moves
  on by one. A match is never empty, so the scan always advances.
\<close>

function replace_global :: "jsstring \<Rightarrow> jsstring" where
  "replace_global [] = []"
| "replace_global (c # cs) =
     (case exec_at (c # cs) of
        Some (code, rest) \<Rightarrow> replacer code @ replace_global rest
      | None \<Rightarrow> c # replace_global cs)"
  by pat_completeness auto
termination
  by (relation "measure length") (auto dest: exec_at_shorter)

definition processedMarkdown :: "jsstring \<Rightarrow> jsstring" where
  "processedMarkdown markdown_source = replace_global markdown_source"

subsection \<open>The injected preamble (lines 285 to 338)\<close>

text \<open>The template literal, line by line; every line of it ends with a line feed.\<close>

definition template_lines :: "jsstring list \<Rightarrow> jsstring" where
  "template_lines ls = concat (map (\<lambda>l. l @ [newline]) ls)"

definition math_script :: jsstring where
  \<open>math_script = template_lines
     [js ''<style>'',
      js ''/* Override Mermaid font styles to use Computer Modern */'',
      js ''.mermaid text,'',
      js ''.mermaid .node text,'',
      js ''.mermaid .edgeLabel text,'',
      js ''.mermaid .label text,'',
      js ''.mermaid .labelText,'',
      js ''.mermaid .actor,'',
      js ''.mermaid .messageText,'',
      js ''.mermaid .noteText,'',
      js ''.mermaid .loopText {'',
      js ''  font-family: "CMU Serif", "Computer Modern", serif !important;'',
      js ''  font-size: 14px !important;'',
      js ''}'',
      [],
      js ''.mermaid .node rect,'',
      js ''.mermaid .node circle,'',
      js ''.mermaid .node ellipse,'',
      js ''.mermaid .node polygon {'',
      js ''  stroke: #333 !important;'',
      js ''}'',
      [],
      js ''.mermaid .edgePath path {'',
      js ''  stroke: #333 !important;'',
      js ''}'',
      js ''</style>'',
      js ''<script>'',
      js ''window.MathJax = {'',
      js ''  tex: {'',
      js ''    inlineMath: [['$', '$'], ['' @ [apostrophe] @ [backslash] @ [backslash] @ js ''(', '' @ [apostrophe] @ [backslash] @ [backslash] @ js '')']],'',
      js ''    displayMath: [['$$', '$$'], ['' @ [apostrophe] @ [backslash] @ [backslash] @ js ''[', '' @ [apostrophe] @ [backslash] @ [backslash] @ js '']']]'',
      js ''  }'',
      js ''};'',
      js ''</script>'',
      js ''<script src="https://cdnjs.cloudflare.com/ajax/libs/mathjax/3.2.2/es5/tex-mml-chtml.js"></script>'',
      js ''<script src="https://cdn.jsdelivr.net/npm/mermaid@11/dist/mermaid.min.js"></script>'',
      js ''<script>'',
      js ''  mermaid.initialize({ '',
      js ''    startOnLoad: true,'',
      js ''    theme: 'default','',
      js ''    themeVariables: {'',
      js ''      primaryColor: '#f4f4f4','',
      js ''      primaryTextColor: '#1f2937','',
      js ''      primaryBorderColor: '#333','',
      js ''      lineColor: '#333','',
      js ''      sectionBkgColor: '#f4f4f4','',
      js ''      altSectionBkgColor: '#fff','',
      js ''      fontFamily: '"CMU Serif", "Computer Modern", serif','',
      js ''      fontSize: '14px'' @ [apostrophe],
      js ''    },'',
      js ''    fontFamily: '"CMU Serif", "Computer Modern", serif'' @ [apostrophe],
      js ''  });'',
      js ''</script>'']\<close>

subsection \<open>The conversion engine's options (lines 342 to 364)\<close>

datatype plugin =
    markdownItEmoji | markdownItCheckbox | markdownItFootnote | markdownItDeflist
  | markdownItContainer

record margins =
  margin_top :: jsstring
  margin_right :: jsstring
  margin_bottom :: jsstring
  margin_left :: jsstring

record pdf_options =
  format :: jsstring
  margin :: margins
  timeout :: nat

text \<open>
  \<open>markdownIt\<close> is passed as \<^verbatim>\<open>undefined\<close> (\<open>None\<close>); each plugin entry is the plugin
  with the arguments that follow it in its array.
\<close>

record marked_options =
  markdownIt :: "unit option"
  markdownItPlugins :: "(plugin \<times> jsstring list) list"

record config =
  dest :: jsstring
  stylesheet :: "jsstring list"
  body_class :: "jsstring list"
  pdf_opts :: pdf_options
  marked_opts :: marked_options

record CreatePDFResult =
  file_name :: jsstring
  download_url :: jsstring

subsection \<open>The host: environment, file system and engine\<close>

text \<open>
  A value thrown in JavaScript is an \<^verbatim>\<open>Error\<close> object with its message, or any other
  value, kept as the string \<^verbatim>\<open>String(error)\<close> gives for it.
\<close>

datatype thrown = Error jsstring | NonError jsstring

text \<open>
  What the program does to the outside world, in the order it does it.
\<close>

datatype effect = WriteFile jsstring jsstring | MdToPdf jsstring config

text \<open>
  The collaborators the source imports, as parameters: \<open>SAVE_PATH\<close> is
  \<^verbatim>\<open>process.env.SAVE_PATH\<close> (\<open>None\<close> when the variable is unset), \<open>writeFile\<close> and
  \<open>mdToPdf\<close> say whether the call on these arguments resolves (\<open>None\<close>) or rejects
  with a thrown value, \<open>JSON_stringify\<close> is \<^verbatim>\<open>JSON.stringify(results, null, 2)\<close>.
\<close>

record host =
  SAVE_PATH :: "jsstring option"
  writeFile :: "jsstring \<Rightarrow> jsstring \<Rightarrow> thrown option"
  mdToPdf :: "jsstring \<Rightarrow> config \<Rightarrow> thrown option"
  JSON_stringify :: "CreatePDFResult \<Rightarrow> jsstring"

subsection \<open>performCreatePDF (lines 269 to 373)\<close>

text \<open>
  \<^verbatim>\<open>process.env.SAVE_PATH || '/home/murali/Documents/GeneratedPDF'\<close>: the operator
  takes its right operand when the left one is falsy, that is \<^verbatim>\<open>undefined\<close> or the
  empty string.
\<close>

definition save_path :: "host \<Rightarrow> jsstring" where
  "save_path h =
     (case SAVE_PATH h of
        None \<Rightarrow> js ''/home/murali/Documents/GeneratedPDF''
      | Some p \<Rightarrow> if p = [] then js ''/home/murali/Documents/GeneratedPDF'' else p)"

definition engine_config :: "host \<Rightarrow> jsstring \<Rightarrow> config" where
  "engine_config h fname =
     \<lparr> dest = save_path h @ js ''/'' @ fname @ js ''.pdf'',
       stylesheet = [js ''/home/murali/Documents/MCP Servers/MDXPDF-MCP/style.css''],
       body_class = [js ''markdown-body''],
       pdf_opts =
         \<lparr> format = js ''A4'',
           margin = \<lparr> margin_top = js ''1in'', margin_right = js ''1in'',
                      margin_bottom = js ''1in'', margin_left = js ''1in'' \<rparr>,
           timeout = 30000 \<rparr>,
       marked_opts =
         \<lparr> markdownIt = None,
           markdownItPlugins =
             [(markdownItEmoji, []),
              (markdownItCheckbox, []),
              (markdownItFootnote, []),
              (markdownItDeflist, []),
              (markdownItContainer, [js ''warning'']),
              (markdownItContainer, [js ''info''])] \<rparr> \<rparr>"

text \<open>
  The result is the trace of effects and either the thrown value (the promise rejects)
  or the returned record. A rejected \<^verbatim>\<open>await\<close> ends the function at that point.
  The parameter \<^verbatim>\<open>file_name\<close> is written \<open>fname\<close>, the name \<open>file_name\<close> being the
  field of the result record.
\<close>

definition performCreatePDF ::
  "host \<Rightarrow> jsstring \<Rightarrow> jsstring \<Rightarrow> effect list \<times> (thrown + CreatePDFResult)" where
  "performCreatePDF h fname markdown_source =
     (let md_path = save_path h @ js ''/'' @ fname @ js ''.md'';
          staged = math_script @ processedMarkdown markdown_source;
          cfg = engine_config h fname
      in case writeFile h md_path staged of
           Some e \<Rightarrow> ([WriteFile md_path staged], Inl e)
         | None \<Rightarrow>
             (case mdToPdf h md_path cfg of
                Some e \<Rightarrow> ([WriteFile md_path staged, MdToPdf md_path cfg], Inl e)
              | None \<Rightarrow>
                  (let downloadUrl = js ''http://localhost:8000/'' @ fname @ js ''.pdf''
                   in ([WriteFile md_path staged, MdToPdf md_path cfg],
                       Inr \<lparr> file_name = fname, download_url = downloadUrl \<rparr>))))"

subsection \<open>Request values and isCreatePDFArgs (lines 255 to 267)\<close>

text \<open>
  The values a JSON request can carry, and \<^verbatim>\<open>undefined\<close> for a property that is
  absent. A number is a real: JSON carries neither NaN nor an infinity. An object is the
  list of its own properties, read by the first entry of a key.
  Inherited properties are left out: \<^verbatim>\<open>Object.prototype\<close> has neither of the two keys
  the program asks for.
\<close>

datatype jsvalue =
    Undefined
  | Null
  | Boolean bool
  | Number real
  | String jsstring
  | Array "jsvalue list"
  | Object "(jsstring \<times> jsvalue) list"

fun typeof :: "jsvalue \<Rightarrow> jsstring" where
  "typeof Undefined = js ''undefined''"
| "typeof Null = js ''object''"
| "typeof (Boolean b) = js ''boolean''"
| "typeof (Number x) = js ''number''"
| "typeof (String s) = js ''string''"
| "typeof (Array vs) = js ''object''"
| "typeof (Object kvs) = js ''object''"

text \<open>\<^verbatim>\<open>!v\<close> is true for the falsy values.\<close>

fun falsy :: "jsvalue \<Rightarrow> bool" where
  "falsy Undefined = True"
| "falsy Null = True"
| "falsy (Boolean b) = (\<not> b)"
| "falsy (Number x) = (x = 0)"
| "falsy (String s) = (s = [])"
| "falsy (Array vs) = False"
| "falsy (Object kvs) = False"

text \<open>
  \<^verbatim>\<open>key in v\<close> and \<^verbatim>\<open>v.key\<close>, for the two keys of the program (neither is an array
  index nor \<^verbatim>\<open>length\<close>). Both are only evaluated on objects and arrays: the guard
  \<^verbatim>\<open>typeof args === "object" && args !== null\<close> comes first.
\<close>

fun has_property :: "jsstring \<Rightarrow> jsvalue \<Rightarrow> bool" where
  "has_property key (Object kvs) = (map_of kvs key \<noteq> None)"
| "has_property key v = False"

fun get_property :: "jsvalue \<Rightarrow> jsstring \<Rightarrow> jsvalue" where
  "get_property (Object kvs) key = (case map_of kvs key of None \<Rightarrow> Undefined | Some v \<Rightarrow> v)"
| "get_property v key = Undefined"

definition isCreatePDFArgs :: "jsvalue \<Rightarrow> bool" where
  "isCreatePDFArgs args \<longleftrightarrow>
     typeof args = js ''object'' \<and>
     args \<noteq> Null \<and>
     has_property (js ''file_name'') args \<and>
     typeof (get_property args (js ''file_name'')) = js ''string'' \<and>
     has_property (js ''markdown_source'') args \<and>
     typeof (get_property args (js ''markdown_source'')) = js ''string''"

subsection \<open>The request handler (lines 380 to 422)\<close>

text \<open>
  \<^verbatim>\<open>request.params\<close>: the protocol layer has checked it against the request schema,
  so \<open>name\<close> is a string; \<open>arguments\<close> is \<open>Undefined\<close> when the request has none.
\<close>

text \<open>
  The fields \<^verbatim>\<open>type\<close> and \<^verbatim>\<open>text\<close> of a content item are written \<open>item_type\<close> and
  \<open>item_text\<close>.
\<close>

record params =
  name :: jsstring
  arguments :: jsvalue

record content_item =
  item_type :: jsstring
  item_text :: jsstring

record response =
  content :: "content_item list"
  isError :: bool

text \<open>The \<^verbatim>\<open>catch\<close> block: every thrown value becomes a failure response.\<close>

definition catch_response :: "thrown \<Rightarrow> response" where
  "catch_response error =
     \<lparr> content =
         [\<lparr> item_type = js ''text'',
            item_text = js ''Error: '' @ (case error of Error message \<Rightarrow> message | NonError s \<Rightarrow> s) \<rparr>],
       isError = True \<rparr>"

text \<open>
  The handler returns the trace of effects and the response. After \<open>isCreatePDFArgs\<close>
  both properties are strings, so the last case of the destructuring is never taken
  (lemma \<open>isCreatePDFArgs_strings\<close> below); it is written out to keep the function total.
\<close>

definition handler :: "host \<Rightarrow> params \<Rightarrow> effect list \<times> response" where
  "handler h request_params =
     (let args = arguments request_params in
      if falsy args then ([], catch_response (Error (js ''No arguments provided'')))
      else if name request_params = js ''create_pdf'' then
        (if \<not> isCreatePDFArgs args
         then ([], catch_response (Error (js ''Invalid arguments for create_pdf'')))
         else
           (case (get_property args (js ''file_name''), get_property args (js ''markdown_source'')) of
              (String fname, String markdown_source) \<Rightarrow>
                (case performCreatePDF h fname markdown_source of
                   (trace, Inl e) \<Rightarrow> (trace, catch_response e)
                 | (trace, Inr results) \<Rightarrow>
                     (trace,
                      \<lparr> content = [\<lparr> item_type = js ''text'', item_text = JSON_stringify h results \<rparr>],
                        isError = False \<rparr>))
            | _ \<Rightarrow> ([], catch_response (Error (js ''Invalid arguments for create_pdf'')))))
      else
        ([], \<lparr> content = [\<lparr> item_type = js ''text'', item_text = js ''Unknown tool: '' @ name request_params \<rparr>],
               isError = True \<rparr>))"

section \<open>Notions of the specification\<close>

subsection \<open>Documents with diagram fences\<close>

text \<open>
  A fence as markdown has it is an opening line of three backticks and the tag, the lines
  of the body, each ended by a line feed, and a closing line of three backticks. The body
  may have no line at all.
\<close>

definition markdown_fence :: "jsstring list \<Rightarrow> jsstring" where
  \<open>markdown_fence body_lines =
     js ''```mermaid'' @ [newline] @ template_lines body_lines @ js ''```''\<close>

text \<open>
  The fences of the properties below are narrower: the opening line \<^verbatim>\<open>```mermaid\<close> ended
  by a line feed right after the tag, a body, and a line feed followed by three
  backticks. They are the markdown fences with at least one body line (lemma
  \<open>markdown_fence_fence\<close>); a fence without a body line, with a carriage return before
  the line feed or with a space after the tag is not of this form. A diagram container is
  the \<^verbatim>\<open>div\<close> element of class \<^verbatim>\<open>mermaid\<close> around some text.
\<close>

definition fence :: "jsstring \<Rightarrow> jsstring" where
  "fence body = fence_open @ body @ fence_close"

definition container :: "jsstring \<Rightarrow> jsstring" where
  \<open>container inner = js ''<div class="mermaid">\<newline>'' @ inner @ js ''\<newline></div>''\<close>

text \<open>
  A text has a diagram fence when a fence with some body occurs in it.
\<close>

definition has_fence :: "jsstring \<Rightarrow> bool" where
  "has_fence s \<longleftrightarrow> (\<exists>body. sublist (fence body) s)"

text \<open>
  A text is the trimmed form of a body when the body is the text with white space before
  and after it, and the text neither starts nor ends with white space.
\<close>

definition trimmed_of :: "jsstring \<Rightarrow> jsstring \<Rightarrow> bool" where
  "trimmed_of inner body \<longleftrightarrow>
     (\<exists>l r. body = l @ inner @ r \<and> list_all isWhiteSpace l \<and> list_all isWhiteSpace r) \<and>
     (inner = [] \<or> (\<not> isWhiteSpace (hd inner) \<and> \<not> isWhiteSpace (last inner)))"

text \<open>
  A document with N fences is a leading text followed by N pairs of a fence body and the
  text after that fence; \<open>rendered\<close> is a leading text followed by N pairs of the inner
  text of a container and the text after that container.
\<close>

fun document :: "jsstring \<Rightarrow> (jsstring \<times> jsstring) list \<Rightarrow> jsstring" where
  "document t [] = t"
| "document t ((body, t') # segs) = t @ fence body @ document t' segs"

fun rendered :: "jsstring \<Rightarrow> (jsstring \<times> jsstring) list \<Rightarrow> jsstring" where
  "rendered t [] = t"
| "rendered t ((inner, t') # segs) = t @ container inner @ rendered t' segs"

text \<open>
  The document is well formed when no fence body holds a line feed followed by three
  backticks (the fence would close there), the text before each fence holds no opening
  line of its own, and the text after the last fence has no fence of the narrow form.
\<close>

fun well_formed :: "jsstring \<Rightarrow> (jsstring \<times> jsstring) list \<Rightarrow> bool" where
  "well_formed t [] = (\<not> has_fence t)"
| "well_formed t ((body, t') # segs) =
     (\<not> sublist fence_open t \<and> \<not> sublist fence_close body \<and> well_formed t' segs)"

subsection \<open>Requests, hosts and traces\<close>

text \<open>
  A request of the tool with both properties given as strings.
\<close>

definition create_pdf_request :: "jsstring \<Rightarrow> jsstring \<Rightarrow> params" where
  "create_pdf_request fname markdown_source =
     \<lparr> name = js ''create_pdf'',
       arguments = Object [(js ''file_name'', String fname),
                           (js ''markdown_source'', String markdown_source)] \<rparr>"

text \<open>
  The text written to the staging file: the data of the first effect of a trace.
\<close>

fun staged_text :: "effect list \<Rightarrow> jsstring option" where
  "staged_text (WriteFile path data # es) = Some data"
| "staged_text es = None"

text \<open>
  Two hosts for concrete runs. On \<open>accepting_host\<close> the variable is unset and every write
  and conversion succeeds; \<open>empty_path_host\<close> differs in that the variable is set to the
  empty string. \<open>stringify_unescaped\<close> is the rendering \<^verbatim>\<open>JSON.stringify\<close> gives for a
  result whose strings need no escape.
\<close>

definition stringify_unescaped :: "CreatePDFResult \<Rightarrow> jsstring" where
  \<open>stringify_unescaped results =
     js ''{\<newline>  "file_name": "'' @ file_name results @
     js ''",\<newline>  "download_url": "'' @ download_url results @ js ''"\<newline>}''\<close>

definition accepting_host :: host where
  "accepting_host =
     \<lparr> SAVE_PATH = None, writeFile = (\<lambda>path data. None), mdToPdf = (\<lambda>path cfg. None),
       JSON_stringify = stringify_unescaped \<rparr>"

definition empty_path_host :: host where
  "empty_path_host = accepting_host \<lparr> SAVE_PATH := Some [] \<rparr>"

subsection \<open>Path resolution\<close>

text \<open>
  Where a path leads: its components between slashes, with empty and single-dot
  components dropped and each double-dot component removing the component before it
  (at the root it has no effect), as the operating system resolves an absolute path
  without symbolic links. A path is inside a directory when the resolved directory is
  an initial segment of the resolved path.
\<close>

fun split_slash :: "jsstring \<Rightarrow> jsstring list" where
  "split_slash [] = [[]]"
| "split_slash (c # cs) =
     (if c = 0x2F then [] # split_slash cs
      else (case split_slash cs of
              [] \<Rightarrow> [[c]]
            | seg # segs \<Rightarrow> (c # seg) # segs))"

fun resolve :: "jsstring list \<Rightarrow> jsstring list \<Rightarrow> jsstring list" where
  "resolve stack [] = rev stack"
| "resolve stack (seg # segs) =
     (if seg = [] \<or> seg = js ''.'' then resolve stack segs
      else if seg = js ''..'' then resolve (tl stack) segs
      else resolve (seg # stack) segs)"

definition inside_directory :: "jsstring \<Rightarrow> jsstring \<Rightarrow> bool" where
  "inside_directory dir path \<longleftrightarrow>
     prefix (resolve [] (split_slash dir)) (resolve [] (split_slash path))"

section \<open>Properties of the preprocessor\<close>

subsection \<open>Overlaps of a pattern with itself\<close>

text \<open>
  A pattern whose first code unit does not occur again in it, or whose last code unit
  does not occur before, cannot start inside a text and run into a copy of itself.
  The closing fence has the first property and the opening line the second (the line
  feed occurs once in each).
\<close>

lemma prefix_append_cut:
  "prefix p (t @ q) \<Longrightarrow> \<not> prefix p t \<Longrightarrow> \<exists>us. us \<noteq> [] \<and> p = t @ us \<and> prefix us q"
  by (auto simp: prefix_append)

lemma prefix_append_short: "prefix us (p @ r) \<Longrightarrow> length us \<le> length p \<Longrightarrow> prefix us p"
  by (auto simp: prefix_append)

lemma prefix_overlap_hd:
  assumes "prefix p (t @ p @ r)" and "t \<noteq> []" and "hd p \<notin> set (tl p)"
  shows "prefix p t"
proof (rule ccontr)
  assume "\<not> prefix p t"
  from prefix_append_cut [OF assms(1) this]
  obtain us where ne: "us \<noteq> []" and p: "p = t @ us" and us: "prefix us (p @ r)"
    by blast
  from p have "length us \<le> length p" by simp
  with us have "prefix us p" by (rule prefix_append_short)
  with ne have "hd us = hd p"
    by (auto simp: prefix_def)
  moreover from p assms(2) have "set us \<subseteq> set (tl p)"
    by (cases t) auto
  moreover from ne have "hd us \<in> set us" by simp
  ultimately show False using assms(3) by auto
qed

lemma prefix_overlap_last:
  assumes "prefix p (t @ p @ r)" and "t \<noteq> []" and "last p \<notin> set (butlast p)"
  shows "prefix p t"
proof (rule ccontr)
  assume "\<not> prefix p t"
  from prefix_append_cut [OF assms(1) this]
  obtain us where ne: "us \<noteq> []" and p: "p = t @ us" and us: "prefix us (p @ r)"
    by blast
  from p assms(2) have len: "length us < length p" by simp
  then have "length us \<le> length p" by simp
  with us have "prefix us p" by (rule prefix_append_short)
  then obtain ws where ws: "p = us @ ws"
    unfolding prefix_def by blast
  with len have "ws \<noteq> []" by auto
  with ws have "set us \<subseteq> set (butlast p)"
    by (metis butlast_append set_append sup_ge1)
  moreover from p ne have "last p = last us" by simp
  moreover from ne have "last us \<in> set us" by simp
  ultimately show False using assms(3) by auto
qed

lemma fence_close_hd: "hd fence_close \<notin> set (tl fence_close)"
  by (simp add: fence_close_def js_def)

lemma fence_open_last: "last fence_open \<notin> set (butlast fence_open)"
  by (simp add: fence_open_def js_def)

lemma fence_open_not_Nil: "fence_open \<noteq> []"
  by (simp add: fence_open_def js_def)

subsection \<open>Matching and scanning\<close>

lemma lazy_capture_first:
  "\<not> sublist fence_close body \<Longrightarrow> lazy_capture (body @ fence_close @ r) = Some (body, r)"
proof (induction body)
  case Nil
  show ?case by (simp add: lazy_capture.simps [of "fence_close @ r"])
next
  case (Cons c body)
  have "\<not> prefix fence_close (c # body)"
    using Cons.prems by (auto dest: prefix_imp_sublist)
  then have "\<not> prefix fence_close ((c # body) @ fence_close @ r)"
    using prefix_overlap_hd [OF _ _ fence_close_hd, of "c # body" r] by blast
  moreover have "\<not> sublist fence_close body"
    using Cons.prems by (auto simp: sublist_Cons_right)
  ultimately show ?case
    using Cons.IH by (simp add: lazy_capture.simps [of "c # body @ fence_close @ r"])
qed

lemma exec_at_fence:
  "\<not> sublist fence_close body \<Longrightarrow> exec_at (fence body @ r) = Some (body, r)"
  by (simp add: exec_at_def fence_def lazy_capture_first)

lemma exec_at_Nil: "exec_at [] = None"
  by (simp add: exec_at_def fence_open_not_Nil)

lemma replace_global_match:
  "exec_at s = Some (code, rest) \<Longrightarrow> replace_global s = replacer code @ replace_global rest"
  by (cases s) (simp_all add: exec_at_Nil)

lemma replace_global_text:
  "\<not> sublist fence_open t \<Longrightarrow>
   replace_global (t @ fence_open @ r) = t @ replace_global (fence_open @ r)"
proof (induction t)
  case Nil
  show ?case by simp
next
  case (Cons c t)
  have "\<not> prefix fence_open (c # t)"
    using Cons.prems by (auto dest: prefix_imp_sublist)
  then have "\<not> prefix fence_open ((c # t) @ fence_open @ r)"
    using prefix_overlap_last [OF _ _ fence_open_last, of "c # t" r] by blast
  then have "exec_at (c # t @ fence_open @ r) = None"
    by (simp add: exec_at_def)
  moreover have "\<not> sublist fence_open t"
    using Cons.prems by (auto simp: sublist_Cons_right)
  ultimately show ?case using Cons.IH by simp
qed

lemma has_fence_Cons_intro: "has_fence cs \<Longrightarrow> has_fence (c # cs)"
  by (auto simp: has_fence_def sublist_Cons_right)

lemma exec_at_has_fence: "exec_at s = Some (code, rest) \<Longrightarrow> has_fence s"
proof -
  assume "exec_at s = Some (code, rest)"
  then have "s = [] @ fence code @ rest"
    by (simp add: exec_at_split fence_def)
  then have "sublist (fence code) s"
    unfolding sublist_def by blast
  then show ?thesis
    unfolding has_fence_def by blast
qed

lemma replace_global_no_fence: "\<not> has_fence s \<Longrightarrow> replace_global s = s"
proof (induction s)
  case Nil
  show ?case by simp
next
  case (Cons c cs)
  have "exec_at (c # cs) = None"
    using Cons.prems exec_at_has_fence by (cases "exec_at (c # cs)") auto
  moreover have "\<not> has_fence cs"
    using Cons.prems has_fence_Cons_intro by blast
  ultimately show ?case using Cons.IH by simp
qed

lemma has_fence_Nil: "\<not> has_fence []"
  by (simp add: has_fence_def fence_def fence_open_not_Nil)

lemma has_fence_Cons:
  "has_fence (c # cs) \<longleftrightarrow>
     (prefix fence_open (c # cs) \<and> sublist fence_close (drop (length fence_open) (c # cs)))
     \<or> has_fence cs"
proof
  assume "has_fence (c # cs)"
  then obtain body where "sublist (fence body) (c # cs)"
    unfolding has_fence_def by blast
  then consider "prefix (fence body) (c # cs)" | "sublist (fence body) cs"
    by (auto simp: sublist_Cons_right)
  then show "(prefix fence_open (c # cs) \<and> sublist fence_close (drop (length fence_open) (c # cs)))
     \<or> has_fence cs"
  proof cases
    case 1
    then obtain ss where "c # cs = fence_open @ body @ fence_close @ ss"
      by (auto simp: prefix_def fence_def)
    then have "prefix fence_open (c # cs)"
      and "drop (length fence_open) (c # cs) = body @ fence_close @ ss"
      by simp_all
    then show ?thesis
      unfolding sublist_def by metis
  next
    case 2
    then show ?thesis
      unfolding has_fence_def by blast
  qed
next
  assume "(prefix fence_open (c # cs) \<and> sublist fence_close (drop (length fence_open) (c # cs)))
     \<or> has_fence cs"
  then show "has_fence (c # cs)"
  proof
    assume a: "prefix fence_open (c # cs) \<and> sublist fence_close (drop (length fence_open) (c # cs))"
    then obtain ps ss where "drop (length fence_open) (c # cs) = ps @ fence_close @ ss"
      unfolding sublist_def by blast
    moreover from a have "c # cs = fence_open @ drop (length fence_open) (c # cs)"
      by (metis append_eq_conv_conj prefix_def)
    ultimately have "c # cs = [] @ fence ps @ ss"
      by (simp add: fence_def)
    then have "sublist (fence ps) (c # cs)"
      unfolding sublist_def by blast
    then show ?thesis
      unfolding has_fence_def by blast
  next
    assume "has_fence cs"
    then show ?thesis by (rule has_fence_Cons_intro)
  qed
qed


lemma replacer_container: "replacer code = container (trim code)"
  by (simp add: replacer_def container_def)

lemma trim_trimmed: "trimmed_of (trim body) body"
proof -
  define l where "l = takeWhile isWhiteSpace body"
  define m where "m = dropWhile isWhiteSpace body"
  define k where "k = dropWhile isWhiteSpace (rev m)"
  define r where "r = rev (takeWhile isWhiteSpace (rev m))"
  have t: "trim body = rev k"
    by (simp add: trim_def k_def m_def)
  have "rev m = takeWhile isWhiteSpace (rev m) @ k"
    by (simp add: k_def)
  then have "rev (rev m) = rev (takeWhile isWhiteSpace (rev m) @ k)"
    by (rule arg_cong)
  then have m: "m = rev k @ r"
    by (simp add: r_def)
  have "body = l @ m"
    by (simp add: l_def m_def)
  with m have body: "body = l @ rev k @ r"
    by simp
  have l: "list_all isWhiteSpace l"
    unfolding l_def list_all_iff by (auto dest: set_takeWhileD)
  have r: "list_all isWhiteSpace r"
    unfolding r_def list_all_iff by (auto dest: set_takeWhileD)
  have ends: "\<not> isWhiteSpace (hd (rev k)) \<and> \<not> isWhiteSpace (last (rev k))" if ne: "k \<noteq> []"
  proof
    from ne m have "m \<noteq> []" and "hd (rev k) = hd m"
      by simp_all
    then show "\<not> isWhiteSpace (hd (rev k))"
      unfolding m_def using hd_dropWhile [of isWhiteSpace body] by simp
    from ne have "last (rev k) = hd k"
      by (simp add: last_rev)
    with ne show "\<not> isWhiteSpace (last (rev k))"
      unfolding k_def using hd_dropWhile [of isWhiteSpace "rev m"] by simp
  qed
  from body l r ends show ?thesis
    unfolding trimmed_of_def t by (cases "k = []") blast+
qed

lemma last_template_lines: "ls \<noteq> [] \<Longrightarrow> last (template_lines ls) = newline"
  by (induction ls) (auto simp: template_lines_def)

lemma markdown_fence_fence:
  "markdown_fence (l # ls) = fence (butlast (template_lines (l # ls)))"
proof -
  have "template_lines (l # ls) \<noteq> []"
    by (simp add: template_lines_def)
  then have "template_lines (l # ls) = butlast (template_lines (l # ls)) @ [last (template_lines (l # ls))]"
    by simp
  then have "template_lines (l # ls) = butlast (template_lines (l # ls)) @ [newline]"
    using last_template_lines [of "l # ls"] by simp
  then have "markdown_fence (l # ls) =
      (js ''```mermaid'' @ [newline]) @ butlast (template_lines (l # ls)) @ ([newline] @ js ''```'')"
    unfolding markdown_fence_def by (metis append_assoc)
  moreover have "js ''```mermaid'' @ [newline] = fence_open" and "[newline] @ js ''```'' = fence_close"
    by (simp_all add: fence_open_def fence_close_def js_def newline_def)
  ultimately show ?thesis
    by (simp add: fence_def)
qed

lemma processedMarkdown_Nil: "processedMarkdown [] = []"
  by (simp add: processedMarkdown_def)

text \<open>
  Facts for evaluating the notions above, and the source functions, on concrete strings.
\<close>

lemmas string_eval = js_def fence_open_def fence_close_def fence_def container_def
  isWhiteSpace_def has_fence_Cons has_fence_Nil sublist_code

lemmas replace_eval = processedMarkdown_def exec_at_def replacer_def lazy_capture.simps js_def
  fence_open_def fence_close_def trim_def isWhiteSpace_def

subsection \<open>Fences become containers\<close>

lemma replace_global_document:
  "well_formed t segs \<Longrightarrow>
   replace_global (document t segs) = rendered t (map (\<lambda>(body, t'). (trim body, t')) segs)"
proof (induction segs arbitrary: t)
  case Nil
  then show ?case by (simp add: replace_global_no_fence)
next
  case (Cons seg segs)
  obtain body t' where seg: "seg = (body, t')" by (cases seg)
  from Cons.prems seg have t: "\<not> sublist fence_open t" and b: "\<not> sublist fence_close body"
    and wf: "well_formed t' segs" by simp_all
  have "replace_global (document t (seg # segs))
      = t @ replace_global (fence body @ document t' segs)"
    using replace_global_text [OF t] by (simp add: seg fence_def)
  also have "replace_global (fence body @ document t' segs)
      = replacer body @ replace_global (document t' segs)"
    using exec_at_fence [OF b] by (rule replace_global_match)
  finally show ?case
    using Cons.IH [OF wf] by (simp add: seg replacer_container)
qed

lemma zip_trimmed:
  "zip (map (\<lambda>seg. trim (fst seg)) segs) (map snd segs) = map (\<lambda>(body, t'). (trim body, t')) segs"
  by (induction segs) auto

text \<open>
  C1, for fences with a body line: for a well-formed document with N diagram fences, the
  preprocessor returns the leading text and N containers, each followed by the text that
  followed its fence; the inner text of the i-th container is the trimmed form of the
  body of the i-th fence.
\<close>

theorem mermaid_fences_rendered:
  "well_formed t segs \<Longrightarrow>
   \<exists>inners. list_all2 trimmed_of inners (map fst segs) \<and>
     processedMarkdown (document t segs) = rendered t (zip inners (map snd segs))"
proof -
  assume wf: "well_formed t segs"
  have "list_all2 trimmed_of (map (\<lambda>seg. trim (fst seg)) segs) (map fst segs)"
    by (simp add: list_all2_map1 list_all2_map2 list_all2_same trim_trimmed)
  moreover have "processedMarkdown (document t segs) =
      rendered t (zip (map (\<lambda>seg. trim (fst seg)) segs) (map snd segs))"
    using replace_global_document [OF wf] by (simp add: processedMarkdown_def zip_trimmed)
  ultimately show ?thesis by blast
qed

text \<open>
  A run on a document with two fences, with the output written out: the line feed at the
  end of the first body and the spaces around the second are gone.
\<close>

theorem mermaid_fences_rendered_witness:
  \<open>well_formed (js ''# T\<newline>'')
     [(js ''graph TD\<newline>  A-->B\<newline>'', js ''\<newline>text\<newline>''),
      (js '' pie '', js ''\<newline>```js\<newline>y\<newline>```'')] \<and>
   (\<exists>inners.
      list_all2 trimmed_of inners [js ''graph TD\<newline>  A-->B\<newline>'', js '' pie ''] \<and>
      processedMarkdown (js ''# T\<newline>```mermaid\<newline>graph TD\<newline>  A-->B\<newline>\<newline>```\<newline>text\<newline>```mermaid\<newline> pie \<newline>```\<newline>```js\<newline>y\<newline>```'') =
        rendered (js ''# T\<newline>'')
          (zip inners [js ''\<newline>text\<newline>'', js ''\<newline>```js\<newline>y\<newline>```''])) \<and>
   processedMarkdown (js ''# T\<newline>```mermaid\<newline>graph TD\<newline>  A-->B\<newline>\<newline>```\<newline>text\<newline>```mermaid\<newline> pie \<newline>```\<newline>```js\<newline>y\<newline>```'') =
     js ''# T\<newline><div class="mermaid">\<newline>graph TD\<newline>  A-->B\<newline></div>\<newline>text\<newline><div class="mermaid">\<newline>pie\<newline></div>\<newline>```js\<newline>y\<newline>```''\<close>
proof -
  have wf: \<open>well_formed (js ''# T\<newline>'')
     [(js ''graph TD\<newline>  A-->B\<newline>'', js ''\<newline>text\<newline>''),
      (js '' pie '', js ''\<newline>```js\<newline>y\<newline>```'')]\<close>
    by (simp add: string_eval)
  have doc: \<open>document (js ''# T\<newline>'')
     [(js ''graph TD\<newline>  A-->B\<newline>'', js ''\<newline>text\<newline>''),
      (js '' pie '', js ''\<newline>```js\<newline>y\<newline>```'')] =
     js ''# T\<newline>```mermaid\<newline>graph TD\<newline>  A-->B\<newline>\<newline>```\<newline>text\<newline>```mermaid\<newline> pie \<newline>```\<newline>```js\<newline>y\<newline>```''\<close>
    by (simp add: js_def fence_def fence_open_def fence_close_def)
  have run: \<open>processedMarkdown (js ''# T\<newline>```mermaid\<newline>graph TD\<newline>  A-->B\<newline>\<newline>```\<newline>text\<newline>```mermaid\<newline> pie \<newline>```\<newline>```js\<newline>y\<newline>```'') =
     js ''# T\<newline><div class="mermaid">\<newline>graph TD\<newline>  A-->B\<newline></div>\<newline>text\<newline><div class="mermaid">\<newline>pie\<newline></div>\<newline>```js\<newline>y\<newline>```''\<close>
    by (simp add: replace_eval)
  from mermaid_fences_rendered [OF wf] wf run show ?thesis
    unfolding doc by simp
qed

text \<open>
  A markdown fence without a body line is not of the narrow form: a document with one
  such fence comes back as it is, with no container in it.
\<close>

theorem bodiless_fence_counterexample:
  \<open>js ''intro\<newline>'' @ markdown_fence [] @ js ''\<newline>outro'' =
     js ''intro\<newline>```mermaid\<newline>```\<newline>outro'' \<and>
   processedMarkdown (js ''intro\<newline>```mermaid\<newline>```\<newline>outro'') =
     js ''intro\<newline>```mermaid\<newline>```\<newline>outro'' \<and>
   \<not> sublist (js ''<div class="mermaid">'')
       (processedMarkdown (js ''intro\<newline>```mermaid\<newline>```\<newline>outro''))\<close>
proof -
  have run: \<open>processedMarkdown (js ''intro\<newline>```mermaid\<newline>```\<newline>outro'') =
     js ''intro\<newline>```mermaid\<newline>```\<newline>outro''\<close>
    by (simp add: replace_eval)
  have \<open>\<not> sublist (js ''<div class="mermaid">'') (js ''intro\<newline>```mermaid\<newline>```\<newline>outro'')\<close>
    by (simp add: js_def sublist_code)
  moreover have \<open>js ''intro\<newline>'' @ markdown_fence [] @ js ''\<newline>outro'' =
     js ''intro\<newline>```mermaid\<newline>```\<newline>outro''\<close>
    by (simp add: markdown_fence_def template_lines_def newline_def js_def)
  ultimately show ?thesis
    unfolding run by simp
qed

subsection \<open>Identity without fences\<close>

text \<open>
  C2: on a markdown source with no diagram fence the preprocessor is the identity.
\<close>

theorem no_fence_identity:
  "\<not> has_fence markdown_source \<Longrightarrow> processedMarkdown markdown_source = markdown_source"
  by (simp add: processedMarkdown_def replace_global_no_fence)

theorem no_fence_identity_witness:
  \<open>\<not> has_fence (js ''# T\<newline>```js\<newline>x\<newline>```\<newline>```mermaid\<newline>'') \<and>
   processedMarkdown (js ''# T\<newline>```js\<newline>x\<newline>```\<newline>```mermaid\<newline>'') =
     js ''# T\<newline>```js\<newline>x\<newline>```\<newline>```mermaid\<newline>''\<close>
proof -
  have nf: \<open>\<not> has_fence (js ''# T\<newline>```js\<newline>x\<newline>```\<newline>```mermaid\<newline>'')\<close>
    by (simp add: string_eval)
  from no_fence_identity [OF nf] nf show ?thesis
    by (rule conjI [rotated])
qed

subsection \<open>A fence with an empty body\<close>




section \<open>Properties of the pipeline\<close>

lemma performCreatePDF_trace:
  "fst (performCreatePDF h fname markdown_source) =
     (let md_path = save_path h @ js ''/'' @ fname @ js ''.md'';
          staged = math_script @ processedMarkdown markdown_source
      in if writeFile h md_path staged = None
         then [WriteFile md_path staged, MdToPdf md_path (engine_config h fname)]
         else [WriteFile md_path staged])"
  by (simp add: performCreatePDF_def Let_def split: option.splits)

lemma performCreatePDF_trace_not_Nil: "fst (performCreatePDF h fname markdown_source) \<noteq> []"
  by (simp add: performCreatePDF_trace Let_def)

subsection \<open>The preamble\<close>

text \<open>
  C3: in any two calls, whatever their hosts, file names and markdown sources, the
  staged text starts with the same preamble \<open>math_script\<close>, a constant; what follows it
  is the preprocessed body of the call.
\<close>

theorem preamble_constant:
  "\<exists>data1 data2.
     staged_text (fst (performCreatePDF h1 fname1 markdown_source1)) = Some data1 \<and>
     staged_text (fst (performCreatePDF h2 fname2 markdown_source2)) = Some data2 \<and>
     take (length math_script) data1 = math_script \<and>
     take (length math_script) data2 = math_script \<and>
     drop (length math_script) data1 = processedMarkdown markdown_source1 \<and>
     drop (length math_script) data2 = processedMarkdown markdown_source2"
  by (simp add: performCreatePDF_trace Let_def)

subsection \<open>The staging file\<close>

text \<open>
  C4, with the empty value told apart: the call writes exactly the preamble followed by the preprocessed
  source to the file \<^verbatim>\<open><dir>/<file_name>.md\<close>, where the directory is the value of
  \<^verbatim>\<open>SAVE_PATH\<close> when the variable is set to a non-empty string and the fixed default
  path when it is unset or empty; the write is the first effect, and the conversion
  engine, when it is invoked, is invoked after it on the same path.
\<close>

theorem staging_write:
  "\<exists>dir. (case SAVE_PATH h of
            None \<Rightarrow> dir = js ''/home/murali/Documents/GeneratedPDF''
          | Some p \<Rightarrow> if p = [] then dir = js ''/home/murali/Documents/GeneratedPDF'' else dir = p) \<and>
         (let md_path = dir @ js ''/'' @ fname @ js ''.md'';
              w = WriteFile md_path (math_script @ processedMarkdown markdown_source)
          in fst (performCreatePDF h fname markdown_source) = [w] \<or>
             (\<exists>cfg. fst (performCreatePDF h fname markdown_source) = [w, MdToPdf md_path cfg]))"
  by (rule exI [of _ "save_path h"])
     (simp add: performCreatePDF_trace Let_def save_path_def split: option.splits)

text \<open>
  With the variable set to the empty string the file goes to the default directory, not
  to the directory the variable names.
\<close>

theorem save_path_empty_counterexample:
  "SAVE_PATH empty_path_host = Some [] \<and>
   fst (performCreatePDF empty_path_host (js ''a'') []) =
     [WriteFile (js ''/home/murali/Documents/GeneratedPDF/a.md'') math_script,
      MdToPdf (js ''/home/murali/Documents/GeneratedPDF/a.md'') (engine_config empty_path_host (js ''a''))] \<and>
   js ''/home/murali/Documents/GeneratedPDF/a.md'' \<noteq> [] @ js ''/'' @ js ''a'' @ js ''.md''"
  by (simp add: performCreatePDF_trace Let_def processedMarkdown_Nil save_path_def
      empty_path_host_def accepting_host_def js_def)

subsection \<open>The engine invocation\<close>

text \<open>
  C5: after a successful staging write the engine is invoked on the staging file, and
  every invocation of the engine carries the destination \<^verbatim>\<open><dir>/<file_name>.pdf\<close>, the
  fixed stylesheet, the body class, the A4 format, margins of one inch on the four
  sides, the timeout of 30000 ms and the plugins emoji, checkbox, footnote, definition
  list, container warning, container info, in this order.
\<close>

theorem engine_invocation:
  "(writeFile h (save_path h @ js ''/'' @ fname @ js ''.md'')
      (math_script @ processedMarkdown markdown_source) = None \<longrightarrow>
      (\<exists>w. fst (performCreatePDF h fname markdown_source) =
         [w, MdToPdf (save_path h @ js ''/'' @ fname @ js ''.md'') (engine_config h fname)])) \<and>
   (\<forall>e \<in> set (fst (performCreatePDF h fname markdown_source)). \<forall>path cfg.
      e = MdToPdf path cfg \<longrightarrow>
        path = save_path h @ js ''/'' @ fname @ js ''.md'' \<and> cfg = engine_config h fname) \<and>
   dest (engine_config h fname) = save_path h @ js ''/'' @ fname @ js ''.pdf'' \<and>
   stylesheet (engine_config h fname) =
     [js ''/home/murali/Documents/MCP Servers/MDXPDF-MCP/style.css''] \<and>
   body_class (engine_config h fname) = [js ''markdown-body''] \<and>
   format (pdf_opts (engine_config h fname)) = js ''A4'' \<and>
   margin (pdf_opts (engine_config h fname)) =
     \<lparr> margin_top = js ''1in'', margin_right = js ''1in'',
       margin_bottom = js ''1in'', margin_left = js ''1in'' \<rparr> \<and>
   timeout (pdf_opts (engine_config h fname)) = 30000 \<and>
   markdownItPlugins (marked_opts (engine_config h fname)) =
     [(markdownItEmoji, []), (markdownItCheckbox, []), (markdownItFootnote, []),
      (markdownItDeflist, []), (markdownItContainer, [js ''warning'']),
      (markdownItContainer, [js ''info''])]"
  by (simp add: performCreatePDF_trace Let_def engine_config_def)

theorem engine_invocation_witness:
  "writeFile accepting_host (save_path accepting_host @ js ''/'' @ js ''report'' @ js ''.md'')
     (math_script @ processedMarkdown (js ''# Hi'')) = None \<and>
   (\<exists>w. fst (performCreatePDF accepting_host (js ''report'') (js ''# Hi'')) =
      [w, MdToPdf (js ''/home/murali/Documents/GeneratedPDF/report.md'')
            (engine_config accepting_host (js ''report''))]) \<and>
   dest (engine_config accepting_host (js ''report'')) =
     js ''/home/murali/Documents/GeneratedPDF/report.pdf'' \<and>
   timeout (pdf_opts (engine_config accepting_host (js ''report''))) = 30000"
proof -
  have ok: "writeFile accepting_host (save_path accepting_host @ js ''/'' @ js ''report'' @ js ''.md'')
      (math_script @ processedMarkdown (js ''# Hi'')) = None"
    by (simp add: accepting_host_def)
  have sp: "save_path accepting_host = js ''/home/murali/Documents/GeneratedPDF''"
    by (simp add: save_path_def accepting_host_def)
  from engine_invocation [of accepting_host "js ''report''" "js ''# Hi''"] ok
  obtain w where "fst (performCreatePDF accepting_host (js ''report'') (js ''# Hi'')) =
      [w, MdToPdf (save_path accepting_host @ js ''/'' @ js ''report'' @ js ''.md'')
            (engine_config accepting_host (js ''report''))]"
    and "dest (engine_config accepting_host (js ''report'')) =
      save_path accepting_host @ js ''/'' @ js ''report'' @ js ''.pdf''"
    and "timeout (pdf_opts (engine_config accepting_host (js ''report''))) = 30000"
    by blast
  with ok show ?thesis
    by (simp add: sp js_def)
qed

subsection \<open>The result\<close>

text \<open>
  C6: a call that returns, returns the record of the file name and of the download URL
  \<^verbatim>\<open>http://localhost:8000/<file_name>.pdf\<close>, whatever the host and the markdown source;
  it returns when the write and the conversion succeed.
\<close>

theorem result_descriptor:
  "(\<forall>r. snd (performCreatePDF h fname markdown_source) = Inr r \<longrightarrow>
      r = \<lparr> file_name = fname, download_url = js ''http://localhost:8000/'' @ fname @ js ''.pdf'' \<rparr>) \<and>
   (writeFile h (save_path h @ js ''/'' @ fname @ js ''.md'')
      (math_script @ processedMarkdown markdown_source) = None \<and>
    mdToPdf h (save_path h @ js ''/'' @ fname @ js ''.md'') (engine_config h fname) = None \<longrightarrow>
      snd (performCreatePDF h fname markdown_source) =
        Inr \<lparr> file_name = fname, download_url = js ''http://localhost:8000/'' @ fname @ js ''.pdf'' \<rparr>)"
  by (auto simp: performCreatePDF_def Let_def split: option.splits)

theorem result_descriptor_witness:
  "snd (performCreatePDF accepting_host (js ''report'') (js ''# Hi'')) =
     Inr \<lparr> file_name = js ''report'', download_url = js ''http://localhost:8000/report.pdf'' \<rparr>"
proof -
  have "writeFile accepting_host (save_path accepting_host @ js ''/'' @ js ''report'' @ js ''.md'')
      (math_script @ processedMarkdown (js ''# Hi'')) = None"
    and "mdToPdf accepting_host (save_path accepting_host @ js ''/'' @ js ''report'' @ js ''.md'')
      (engine_config accepting_host (js ''report'')) = None"
    by (simp_all add: accepting_host_def)
  with result_descriptor [of accepting_host "js ''report''" "js ''# Hi''"]
  have "snd (performCreatePDF accepting_host (js ''report'') (js ''# Hi'')) =
     Inr \<lparr> file_name = js ''report'',
           download_url = js ''http://localhost:8000/'' @ js ''report'' @ js ''.pdf'' \<rparr>"
    by blast
  then show ?thesis by (simp add: js_def)
qed

section \<open>Properties of the request handler\<close>

lemma isCreatePDFArgs_strings:
  assumes "isCreatePDFArgs args"
  shows "\<exists>kvs fname markdown_source. args = Object kvs
           \<and> map_of kvs (js ''file_name'') = Some (String fname)
           \<and> map_of kvs (js ''markdown_source'') = Some (String markdown_source)"
proof -
  from assms obtain kvs where args: "args = Object kvs"
    by (cases args) (simp_all add: isCreatePDFArgs_def)
  from assms args obtain v w where v: "map_of kvs (js ''file_name'') = Some v"
    and w: "map_of kvs (js ''markdown_source'') = Some w"
    by (auto simp: isCreatePDFArgs_def)
  from assms args v have "typeof v = js ''string''"
    by (simp add: isCreatePDFArgs_def)
  then obtain fname where "v = String fname"
    by (cases v) (simp_all add: js_def)
  moreover from assms args w have "typeof w = js ''string''"
    by (simp add: isCreatePDFArgs_def)
  then obtain markdown_source where "w = String markdown_source"
    by (cases w) (simp_all add: js_def)
  ultimately show ?thesis using args v w by blast
qed

lemma isCreatePDFArgs_request: "isCreatePDFArgs (arguments (create_pdf_request fname markdown_source))"
  by (simp add: isCreatePDFArgs_def create_pdf_request_def js_def)

lemma handler_request:
  "handler h (create_pdf_request fname markdown_source) =
     (case performCreatePDF h fname markdown_source of
        (trace, Inl e) \<Rightarrow> (trace, catch_response e)
      | (trace, Inr results) \<Rightarrow>
          (trace,
           \<lparr> content = [\<lparr> item_type = js ''text'', item_text = JSON_stringify h results \<rparr>],
             isError = False \<rparr>))"
proof -
  have "get_property (arguments (create_pdf_request fname markdown_source)) (js ''file_name'') = String fname"
    and "get_property (arguments (create_pdf_request fname markdown_source)) (js ''markdown_source'') = String markdown_source"
    and "\<not> falsy (arguments (create_pdf_request fname markdown_source))"
    and "name (create_pdf_request fname markdown_source) = js ''create_pdf''"
    by (simp_all add: create_pdf_request_def js_def)
  then show ?thesis
    using isCreatePDFArgs_request [of fname markdown_source]
    by (simp add: handler_def)
qed

lemma handler_trace: "fst (handler h (create_pdf_request fname markdown_source)) =
    fst (performCreatePDF h fname markdown_source)"
  by (simp add: handler_request split: prod.splits sum.splits)

subsection \<open>What validation establishes\<close>

text \<open>
  C7, for strings of any length: a request that reaches the pipeline names the tool and
  carries both properties as strings; and every pair of strings, the empty one included,
  reaches the pipeline.
\<close>

theorem validated_fields_are_strings:
  "(fst (handler h request_params) \<noteq> [] \<longrightarrow>
      name request_params = js ''create_pdf'' \<and>
      (\<exists>kvs fname markdown_source. arguments request_params = Object kvs
         \<and> map_of kvs (js ''file_name'') = Some (String fname)
         \<and> map_of kvs (js ''markdown_source'') = Some (String markdown_source))) \<and>
   fst (handler h (create_pdf_request fname markdown_source)) \<noteq> []"
proof (intro conjI impI)
  assume ne: "fst (handler h request_params) \<noteq> []"
  then show "name request_params = js ''create_pdf''"
    by (auto simp: handler_def Let_def split: if_splits)
  from ne have "isCreatePDFArgs (arguments request_params)"
    by (auto simp: handler_def Let_def split: if_splits)
  then show "\<exists>kvs fname markdown_source. arguments request_params = Object kvs
         \<and> map_of kvs (js ''file_name'') = Some (String fname)
         \<and> map_of kvs (js ''markdown_source'') = Some (String markdown_source)"
    by (rule isCreatePDFArgs_strings)
next
  show "fst (handler h (create_pdf_request fname markdown_source)) \<noteq> []"
    by (simp add: handler_trace performCreatePDF_trace_not_Nil)
qed

theorem validated_fields_are_strings_witness:
  "fst (handler accepting_host (create_pdf_request (js ''report'') (js ''# Hi''))) \<noteq> [] \<and>
   name (create_pdf_request (js ''report'') (js ''# Hi'')) = js ''create_pdf'' \<and>
   (\<exists>kvs fname markdown_source.
      arguments (create_pdf_request (js ''report'') (js ''# Hi'')) = Object kvs
      \<and> map_of kvs (js ''file_name'') = Some (String fname)
      \<and> map_of kvs (js ''markdown_source'') = Some (String markdown_source))"
  using validated_fields_are_strings
    [of accepting_host "create_pdf_request (js ''report'') (js ''# Hi'')" "js ''report''" "js ''# Hi''"]
  by blast

text \<open>
  The request with two empty strings passes validation: the staging file \<^verbatim>\<open>.md\<close> is
  written, the engine is invoked and the response is not flagged as an error.
\<close>

theorem empty_fields_counterexample:
  "fst (handler accepting_host (create_pdf_request [] [])) =
     [WriteFile (js ''/home/murali/Documents/GeneratedPDF/.md'') math_script,
      MdToPdf (js ''/home/murali/Documents/GeneratedPDF/.md'') (engine_config accepting_host [])] \<and>
   isError (snd (handler accepting_host (create_pdf_request [] []))) = False"
  by (simp add: handler_request performCreatePDF_def Let_def processedMarkdown_Nil save_path_def
      accepting_host_def js_def)

subsection \<open>Rejected arguments\<close>

text \<open>
  C8: a request of the tool whose arguments are absent, or are an object in which
  \<^verbatim>\<open>file_name\<close> or \<^verbatim>\<open>markdown_source\<close> is missing or not a string, has no effect on the
  outside world and is answered by a response flagged as an error, with the message
  that no arguments were provided (arguments absent) or that the arguments are invalid.
\<close>

theorem invalid_arguments_rejected:
  assumes "name request_params = js ''create_pdf''"
    and "arguments request_params = Undefined \<or>
         (\<exists>kvs. arguments request_params = Object kvs \<and>
            ((\<forall>s. map_of kvs (js ''file_name'') \<noteq> Some (String s)) \<or>
             (\<forall>s. map_of kvs (js ''markdown_source'') \<noteq> Some (String s))))"
  shows "fst (handler h request_params) = [] \<and>
         isError (snd (handler h request_params)) \<and>
         content (snd (handler h request_params)) =
           [\<lparr> item_type = js ''text'',
              item_text = (if arguments request_params = Undefined
                           then js ''Error: No arguments provided''
                           else js ''Error: Invalid arguments for create_pdf'') \<rparr>]"
proof -
  from assms(2) have inv: "\<not> isCreatePDFArgs (arguments request_params)"
    by (auto dest!: isCreatePDFArgs_strings)
  show ?thesis
  proof (cases "arguments request_params = Undefined")
    case True
    then show ?thesis
      by (simp add: handler_def catch_response_def js_def)
  next
    case False
    with assms(2) have "\<not> falsy (arguments request_params)" by auto
    with False inv assms(1) show ?thesis
      by (simp add: handler_def catch_response_def js_def)
  qed
qed

theorem invalid_arguments_rejected_witness:
  "fst (handler accepting_host
      \<lparr> name = js ''create_pdf'', arguments = Object [(js ''file_name'', String (js ''report''))] \<rparr>) = [] \<and>
   isError (snd (handler accepting_host
      \<lparr> name = js ''create_pdf'', arguments = Object [(js ''file_name'', String (js ''report''))] \<rparr>)) \<and>
   content (snd (handler accepting_host
      \<lparr> name = js ''create_pdf'', arguments = Object [(js ''file_name'', String (js ''report''))] \<rparr>)) =
     [\<lparr> item_type = js ''text'', item_text = js ''Error: Invalid arguments for create_pdf'' \<rparr>]"
  using invalid_arguments_rejected
    [of "\<lparr> name = js ''create_pdf'', arguments = Object [(js ''file_name'', String (js ''report''))] \<rparr>"
        accepting_host]
  by (simp add: js_def)

subsection \<open>File names are not sanitized\<close>

text \<open>
  C9: for every string given as file name, the staging write goes to the path
  \<^verbatim>\<open><dir>/<file_name>.md\<close> built from the string as it is; for the file name
  \<^verbatim>\<open>../../.ssh/x\<close> that path leads outside the output directory.
\<close>

theorem file_name_unsanitized:
  "(\<forall>h fname markdown_source. \<exists>data rest.
      fst (handler h (create_pdf_request fname markdown_source)) =
        WriteFile (save_path h @ js ''/'' @ fname @ js ''.md'') data # rest) \<and>
   (\<exists>fname data rest.
      fst (handler accepting_host (create_pdf_request fname [])) =
        WriteFile (js ''/home/murali/Documents/GeneratedPDF/'' @ fname @ js ''.md'') data # rest \<and>
      \<not> inside_directory (js ''/home/murali/Documents/GeneratedPDF'')
           (js ''/home/murali/Documents/GeneratedPDF/'' @ fname @ js ''.md''))"
proof (intro conjI allI)
  fix h fname markdown_source
  show "\<exists>data rest. fst (handler h (create_pdf_request fname markdown_source)) =
        WriteFile (save_path h @ js ''/'' @ fname @ js ''.md'') data # rest"
    by (simp add: handler_trace performCreatePDF_trace Let_def)
next
  have "fst (handler accepting_host (create_pdf_request (js ''../../.ssh/x'') [])) =
      WriteFile (js ''/home/murali/Documents/GeneratedPDF/'' @ js ''../../.ssh/x'' @ js ''.md'')
        math_script #
      [MdToPdf (js ''/home/murali/Documents/GeneratedPDF/'' @ js ''../../.ssh/x'' @ js ''.md'')
         (engine_config accepting_host (js ''../../.ssh/x''))]"
    by (simp add: handler_trace performCreatePDF_trace Let_def processedMarkdown_Nil save_path_def
        accepting_host_def js_def)
  moreover have "\<not> inside_directory (js ''/home/murali/Documents/GeneratedPDF'')
      (js ''/home/murali/Documents/GeneratedPDF/'' @ js ''../../.ssh/x'' @ js ''.md'')"
    by (simp add: inside_directory_def js_def)
  ultimately show "\<exists>fname data rest.
      fst (handler accepting_host (create_pdf_request fname [])) =
        WriteFile (js ''/home/murali/Documents/GeneratedPDF/'' @ fname @ js ''.md'') data # rest \<and>
      \<not> inside_directory (js ''/home/murali/Documents/GeneratedPDF'')
           (js ''/home/murali/Documents/GeneratedPDF/'' @ fname @ js ''.md'')"
    by blast
qed

text \<open>
  The path of that write, resolved.
\<close>

lemma resolve_example:
  "resolve [] (split_slash (js ''/home/murali/Documents/GeneratedPDF/../../.ssh/x.md'')) =
     [js ''home'', js ''murali'', js ''.ssh'', js ''x.md'']"
  by (simp add: js_def)

end
